theory Spec2Isabelle
  imports Complex_Main
begin

section \<open>JavaScript values the client library handles\<close>

text \<open>
  The library (\<^verbatim>\<open>src/index.ios.tsx\<close>) is a thin asynchronous layer between
  application code and the native HealthKit module. Identifiers and units are strings at
  run time, a \<^verbatim>\<open>number\<close> only passes through, and an optional parameter that
  was omitted (\<^verbatim>\<open>undefined\<close>) is \<open>None\<close>.
\<close>

type_synonym HKQuantityTypeIdentifier = string
type_synonym HKUnit = string
type_synonym HKStatisticsOptions = string
type_synonym number = real

text \<open>
  \<^verbatim>\<open>metadata: any\<close> is an arbitrary JavaScript value; the library only tests it for
  truthiness (\<^verbatim>\<open>options?.metadata || {}\<close>).
\<close>

datatype jsval =
    JUndefined
  | JNull
  | JBool bool
  | JNumber number
  | JString string
  | JObject "(string \<times> jsval) list"

fun truthy :: "jsval \<Rightarrow> bool" where
  "truthy JUndefined = False"
| "truthy JNull = False"
| "truthy (JBool b) = b"
| "truthy (JNumber n) = (n \<noteq> 0)"
| "truthy (JString s) = (s \<noteq> [])"
| "truthy (JObject kvs) = True"

text \<open>
  What a rejected promise or a thrown exception carries: the native module rejects with a
  reason of its own, and \<^verbatim>\<open>Date.prototype.toISOString\<close> throws a RangeError on an
  invalid date.
\<close>

datatype error = Rejected string | RangeError

subsection \<open>Dates\<close>

text \<open>
  A JavaScript \<^verbatim>\<open>Date\<close> holds a time value: milliseconds since the epoch, or NaN
  (\<open>None\<close>, an "Invalid Date"). \<^verbatim>\<open>new Date(string)\<close> never throws: it stores
  what \<^verbatim>\<open>Date.parse\<close> returns, NaN for a string it cannot parse. Which strings
  beyond the ISO format parse depends on the engine, so the parser is a field of the
  runtime the library runs on, together with the clock that \<^verbatim>\<open>new Date()\<close> reads
  (\<open>Date_now R k\<close> is the \<open>k\<close>-th reading).
\<close>

datatype Date = Date (time_value: "int option")

record runtime =
  Date_parse :: "string \<Rightarrow> int option"
  Date_now :: "nat \<Rightarrow> int"

definition new_Date :: "runtime \<Rightarrow> string \<Rightarrow> Date" where
  "new_Date R s = Date (Date_parse R s)"

text \<open>
  \<^verbatim>\<open>toISOString\<close> is fixed by ECMAScript: \<^verbatim>\<open>YYYY-MM-DDTHH:mm:ss.sssZ\<close> in UTC,
  with a signed six-digit year outside 0..9999.
\<close>

definition msPerDay :: int where
  "msPerDay = 86400000"

definition civil_from_days :: "int \<Rightarrow> int \<times> int \<times> int" where
  "civil_from_days z0 =
     (let z = z0 + 719468;
          era = z div 146097;
          doe = z mod 146097;
          yoe = (doe - doe div 1460 + doe div 36524 - doe div 146096) div 365;
          doy = doe - (365 * yoe + yoe div 4 - yoe div 100);
          mp = (5 * doy + 2) div 153;
          d = doy - (153 * mp + 2) div 5 + 1;
          m = (if mp < 10 then mp + 3 else mp - 9);
          y = yoe + era * 400 + (if m \<le> 2 then 1 else 0)
      in (y, m, d))"

definition days_from_civil :: "int \<Rightarrow> int \<Rightarrow> int \<Rightarrow> int" where
  "days_from_civil y0 m d =
     (let y = (if m \<le> 2 then y0 - 1 else y0);
          era = y div 400;
          yoe = y mod 400;
          doy = (153 * (if m > 2 then m - 3 else m + 9) + 2) div 5 + d - 1;
          doe = yoe * 365 + yoe div 4 - yoe div 100 + doy
      in era * 146097 + doe - 719468)"

definition digit :: "int \<Rightarrow> char" where
  "digit n = char_of (48 + n)"

fun pad :: "nat \<Rightarrow> int \<Rightarrow> string" where
  "pad 0 n = []"
| "pad (Suc k) n = pad k (n div 10) @ [digit (n mod 10)]"

definition year_string :: "int \<Rightarrow> string" where
  "year_string y =
     (if 0 \<le> y \<and> y \<le> 9999 then pad 4 y
      else (if y < 0 then ''-'' else ''+'') @ pad 6 (abs y))"

definition iso_string :: "int \<Rightarrow> string" where
  "iso_string t =
     (let (y, m, d) = civil_from_days (t div msPerDay);
          r = t mod msPerDay
      in year_string y @ ''-'' @ pad 2 m @ ''-'' @ pad 2 d @ ''T'' @
         pad 2 (r div 3600000) @ '':'' @ pad 2 (r div 60000 mod 60) @ '':'' @
         pad 2 (r div 1000 mod 60) @ ''.'' @ pad 3 (r mod 1000) @ ''Z'')"

definition toISOString :: "Date \<Rightarrow> error + string" where
  "toISOString d =
     (case time_value d of None \<Rightarrow> Inl RangeError | Some t \<Rightarrow> Inr (iso_string t))"

text \<open>
  A reference parser for concrete examples: it accepts exactly the 24 characters that
  \<open>iso_string\<close> produces for the years 0..9999, and nothing else.
\<close>

definition digit_val :: "char \<Rightarrow> int option" where
  "digit_val c =
     (let n = (of_char c :: nat) in if 48 \<le> n \<and> n \<le> 57 then Some (int n - 48) else None)"

fun digits_val :: "int \<Rightarrow> string \<Rightarrow> int option" where
  "digits_val acc [] = Some acc"
| "digits_val acc (c # cs) =
     (case digit_val c of None \<Rightarrow> None | Some v \<Rightarrow> digits_val (10 * acc + v) cs)"

definition days_in_month :: "int \<Rightarrow> int \<Rightarrow> int" where
  "days_in_month y m =
     (if m = 2 then (if y mod 4 = 0 \<and> (y mod 100 \<noteq> 0 \<or> y mod 400 = 0) then 29 else 28)
      else if m = 4 \<or> m = 6 \<or> m = 9 \<or> m = 11 then 30 else 31)"

definition field :: "nat \<Rightarrow> nat \<Rightarrow> string \<Rightarrow> int option" where
  "field i n s = digits_val 0 (take n (drop i s))"

definition strict_iso_parse :: "string \<Rightarrow> int option" where
  "strict_iso_parse s =
     (if length s = 24 \<and> s ! 4 = CHR ''-'' \<and> s ! 7 = CHR ''-'' \<and> s ! 10 = CHR ''T'' \<and>
         s ! 13 = CHR '':'' \<and> s ! 16 = CHR '':'' \<and> s ! 19 = CHR ''.'' \<and> s ! 23 = CHR ''Z''
      then
        (case (field 0 4 s, field 5 2 s, field 8 2 s, field 11 2 s, field 14 2 s,
               field 17 2 s, field 20 3 s) of
          (Some y, Some m, Some d, Some h, Some mi, Some sec, Some ms) \<Rightarrow>
            if 1 \<le> m \<and> m \<le> 12 \<and> 1 \<le> d \<and> d \<le> days_in_month y m \<and>
               h \<le> 23 \<and> mi \<le> 59 \<and> sec \<le> 59
            then Some (days_from_civil y m d * msPerDay + h * 3600000 + mi * 60000 +
                       sec * 1000 + ms)
            else None
        | _ \<Rightarrow> None)
      else None)"

definition reference_runtime :: runtime where
  "reference_runtime = \<lparr>Date_parse = strict_iso_parse, Date_now = (\<lambda>k. 1704067200000 + int k)\<rparr>"

subsection \<open>Samples\<close>

text \<open>
  A sample as it crosses the bridge has its two dates as strings; the library's sample has
  them as \<^verbatim>\<open>Date\<close> objects. Every other field (uuid, quantity, unit, metadata, ...)
  is the record's extension, which the object spread \<^verbatim>\<open>{...sample, ...}\<close> copies.
\<close>

record 'd sample =
  startDate :: 'd
  endDate :: 'd

type_synonym 'm QuantitySampleRaw = "(string, 'm) sample_scheme"
type_synonym 'm QuantitySample = "(Date, 'm) sample_scheme"

definition deserializeSample :: "runtime \<Rightarrow> 'm QuantitySampleRaw \<Rightarrow> 'm QuantitySample" where
  "deserializeSample R sample =
     \<lparr>startDate = new_Date R (startDate sample),
      endDate = new_Date R (endDate sample),
      \<dots> = sample.more sample\<rparr>"

text \<open>
  Modelled from the spec: the inverse direction, which the native side performs and which
  is not part of the TypeScript sources. The spec's \<^verbatim>\<open>serialize\<close> renders the two
  dates of a sample as ISO8601 strings and leaves the rest alone; \<open>render\<close> is the
  ISO8601 renderer.
\<close>

definition serialize :: "(Date \<Rightarrow> string) \<Rightarrow> 'm QuantitySample \<Rightarrow> 'm QuantitySampleRaw" where
  "serialize render sample =
     \<lparr>startDate = render (startDate sample),
      endDate = render (endDate sample),
      \<dots> = sample.more sample\<rparr>"

text \<open>
  The ISO8601 renderer for examples: \<open>toISOString\<close>, with the text JavaScript prints for
  an invalid date where there is no ISO string.
\<close>

definition render_iso :: "Date \<Rightarrow> string" where
  "render_iso d = (case toISOString d of Inl e \<Rightarrow> ''Invalid Date'' | Inr s \<Rightarrow> s)"

text \<open>A concrete extension for examples: some of the fields a quantity sample carries.\<close>

record quantity_fields =
  uuid :: string
  quantityType :: HKQuantityTypeIdentifier
  quantity :: number
  sample_unit :: HKUnit

subsection \<open>Statistics responses\<close>

text \<open>
  The raw response has an optional \<^verbatim>\<open>mostRecentQuantityDateInterval\<close> with two date
  strings (\<open>None\<close> when the field is absent); the remaining fields are the record's
  extension.
\<close>

record 'd interval =
  i_from :: 'd
  i_to :: 'd

record 'd stats =
  mostRecentQuantityDateInterval :: "'d interval option"

type_synonym 'q StatsResponseRaw = "(string, 'q) stats_scheme"
type_synonym 'q StatsResponse = "(Date, 'q) stats_scheme"

text \<open>A concrete extension for examples.\<close>

record stats_fields =
  averageQuantity :: "number option"
  sumQuantity :: "number option"
  stats_unit :: HKUnit

section \<open>The native bridge and the event emitter\<close>

text \<open>
  \<open>call\<close> is a request sent to the native module, with its arguments in the order of
  \<^verbatim>\<open>ReactNativeHealthkitTypeNative\<close>. A unit argument may be \<^verbatim>\<open>undefined\<close> at run
  time (the looked-up preferred unit of an identifier the module did not report).
\<close>

type_synonym permissions = "string \<rightharpoonup> bool"

datatype call =
    GetPreferredUnits "HKQuantityTypeIdentifier list"
  | GetLastSamples HKQuantityTypeIdentifier number "HKUnit option"
  | Observe HKQuantityTypeIdentifier "HKUnit option"
  | StopObserving string
  | RequestAuthorization permissions permissions
  | GetRequestStatusForAuthorization permissions permissions
  | Save HKQuantityTypeIdentifier HKUnit number string string jsval
  | GetStatsBetween HKQuantityTypeIdentifier "HKUnit option" string string "HKStatisticsOptions list"

text \<open>
  Modelled from the spec: the declaration of the request status is in \<^verbatim>\<open>types.ts\<close>,
  which is not among the sources; the spec lists its three values.
\<close>

datatype HKAuthorizationRequestStatus = unknown | shouldRequest | alreadyRequested

text \<open>
  The native module is outside the library: each method is a function from the requests
  made so far and the arguments to the outcome of the promise, \<open>Inl\<close> a rejection. The
  history lets the module answer the same request differently the second time.
\<close>

record ('m, 'q) Native =
  Native_getPreferredUnits ::
    "call list \<Rightarrow> HKQuantityTypeIdentifier list \<Rightarrow> error + (HKQuantityTypeIdentifier \<rightharpoonup> HKUnit)"
  Native_getLastSamples ::
    "call list \<Rightarrow> HKQuantityTypeIdentifier \<Rightarrow> number \<Rightarrow> HKUnit option \<Rightarrow>
       error + 'm QuantitySampleRaw list"
  Native_observe :: "call list \<Rightarrow> HKQuantityTypeIdentifier \<Rightarrow> HKUnit option \<Rightarrow> error + string"
  Native_stopObserving :: "call list \<Rightarrow> string \<Rightarrow> error + bool"
  Native_requestAuthorization :: "call list \<Rightarrow> permissions \<Rightarrow> permissions \<Rightarrow> error + bool"
  Native_getRequestStatusForAuthorization ::
    "call list \<Rightarrow> permissions \<Rightarrow> permissions \<Rightarrow> error + HKAuthorizationRequestStatus"
  Native_save ::
    "call list \<Rightarrow> HKQuantityTypeIdentifier \<Rightarrow> HKUnit \<Rightarrow> number \<Rightarrow> string \<Rightarrow> string \<Rightarrow> jsval \<Rightarrow>
       error + bool"
  Native_getStatsBetween ::
    "call list \<Rightarrow> HKQuantityTypeIdentifier \<Rightarrow> HKUnit option \<Rightarrow> string \<Rightarrow> string \<Rightarrow>
       HKStatisticsOptions list \<Rightarrow> error + 'q StatsResponseRaw"

text \<open>
  The listener that \<^verbatim>\<open>on\<close> registers is a closure over the identifier and the
  caller's callback. The callback is opaque: the model records each invocation with its
  argument. The emitter keeps its subscriptions in an array, the key of a subscription
  being its index; removing a subscription deletes its slot (\<open>None\<close>), and deleting a
  slot twice changes nothing.
\<close>

record 'cb listener =
  l_identifier :: HKQuantityTypeIdentifier
  l_callback :: 'cb

record 'm event =
  samples :: "'m QuantitySampleRaw list"
  typeIdentifier :: HKQuantityTypeIdentifier

record ('cb, 'm) world =
  calls :: "call list"
  listeners :: "(string \<times> 'cb listener) option list"
  invoked :: "('cb \<times> 'm QuantitySample list) list"
  ticks :: nat

definition log_call :: "call \<Rightarrow> ('cb, 'm) world \<Rightarrow> ('cb, 'm) world" where
  "log_call c w = w\<lparr>calls := calls w @ [c]\<rparr>"

definition addListener ::
  "string \<Rightarrow> 'cb listener \<Rightarrow> ('cb, 'm) world \<Rightarrow> nat \<times> ('cb, 'm) world" where
  "addListener eventType l w =
     (length (listeners w), w\<lparr>listeners := listeners w @ [Some (eventType, l)]\<rparr>)"

definition remove :: "nat \<Rightarrow> ('cb, 'm) world \<Rightarrow> ('cb, 'm) world" where
  "remove key w = w\<lparr>listeners := (listeners w)[key := None]\<rparr>"

definition registered :: "('cb, 'm) world \<Rightarrow> (string \<times> 'cb listener) list" where
  "registered w = concat (map (\<lambda>slot. case slot of None \<Rightarrow> [] | Some l \<Rightarrow> [l]) (listeners w))"

definition callback :: "'cb \<Rightarrow> 'm QuantitySample list \<Rightarrow> ('cb, 'm) world \<Rightarrow> ('cb, 'm) world" where
  "callback cb xs w = w\<lparr>invoked := invoked w @ [(cb, xs)]\<rparr>"

definition new_Date_now :: "runtime \<Rightarrow> ('cb, 'm) world \<Rightarrow> Date \<times> ('cb, 'm) world" where
  "new_Date_now R w = (Date (Some (Date_now R (ticks w))), w\<lparr>ticks := Suc (ticks w)\<rparr>)"

section \<open>The library\<close>

text \<open>
  Every operation takes the world before it and returns the outcome with the world after
  it. An \<^verbatim>\<open>await\<close> on a rejected promise leaves the function at once, so each
  bridge call is followed by a case on its outcome.
\<close>

definition getPreferredUnit ::
  "('m, 'q) Native \<Rightarrow> HKQuantityTypeIdentifier \<Rightarrow> ('cb, 'm) world \<Rightarrow>
     (error + HKUnit option) \<times> ('cb, 'm) world" where
  "getPreferredUnit N type w =
     (case Native_getPreferredUnits N (calls w) [type] of
        Inl e \<Rightarrow> (Inl e, log_call (GetPreferredUnits [type]) w)
      | Inr unit \<Rightarrow> (Inr (unit type), log_call (GetPreferredUnits [type]) w))"

text \<open>
  \<^verbatim>\<open>unit || (await getPreferredUnit(identifier))\<close>, the first line of every operation
  with an optional unit. The left operand is taken when it is truthy: a unit that is
  \<^verbatim>\<open>undefined\<close> or the empty string is not.
\<close>

definition actualUnit ::
  "('m, 'q) Native \<Rightarrow> HKQuantityTypeIdentifier \<Rightarrow> HKUnit option \<Rightarrow> ('cb, 'm) world \<Rightarrow>
     (error + HKUnit option) \<times> ('cb, 'm) world" where
  "actualUnit N identifier unit w =
     (case unit of
        None \<Rightarrow> getPreferredUnit N identifier w
      | Some u \<Rightarrow> if u \<noteq> [] then (Inr (Some u), w) else getPreferredUnit N identifier w)"

definition getLastSamples ::
  "runtime \<Rightarrow> ('m, 'q) Native \<Rightarrow> HKQuantityTypeIdentifier \<Rightarrow> number option \<Rightarrow> HKUnit option \<Rightarrow>
     ('cb, 'm) world \<Rightarrow> (error + 'm QuantitySample list) \<times> ('cb, 'm) world" where
  "getLastSamples R N identifier limit unit w =
     (let actualLimit = (case limit of None \<Rightarrow> 1 | Some l \<Rightarrow> l) in
      case actualUnit N identifier unit w of
        (Inl e, w1) \<Rightarrow> (Inl e, w1)
      | (Inr au, w1) \<Rightarrow>
          (case Native_getLastSamples N (calls w1) identifier actualLimit au of
             Inl e \<Rightarrow> (Inl e, log_call (GetLastSamples identifier actualLimit au) w1)
           | Inr raw \<Rightarrow>
               (Inr (map (deserializeSample R) raw),
                log_call (GetLastSamples identifier actualLimit au) w1)))"

text \<open>\<^verbatim>\<open>samples[0]\<close> of an empty array is \<^verbatim>\<open>undefined\<close>, not an error.\<close>

definition getLastSample ::
  "runtime \<Rightarrow> ('m, 'q) Native \<Rightarrow> HKQuantityTypeIdentifier \<Rightarrow> HKUnit option \<Rightarrow>
     ('cb, 'm) world \<Rightarrow> (error + 'm QuantitySample option) \<times> ('cb, 'm) world" where
  "getLastSample R N identifier unit w =
     (case getLastSamples R N identifier (Some 1) unit w of
        (Inl e, w1) \<Rightarrow> (Inl e, w1)
      | (Inr xs, w1) \<Rightarrow> (Inr (case xs of [] \<Rightarrow> None | x # _ \<Rightarrow> Some x), w1))"

text \<open>
  The function that \<^verbatim>\<open>on\<close> returns is a closure over the subscription and the query
  id; \<open>unsubscribe\<close> is its body.
\<close>

record unsubscribe_fn =
  u_subscription :: nat
  u_queryId :: string

definition listener ::
  "runtime \<Rightarrow> 'cb listener \<Rightarrow> 'm event \<Rightarrow> ('cb, 'm) world \<Rightarrow> ('cb, 'm) world" where
  "listener R l ev w =
     (if typeIdentifier ev = l_identifier l
      then callback (l_callback l) (map (deserializeSample R) (samples ev)) w
      else w)"

definition on ::
  "('m, 'q) Native \<Rightarrow> HKQuantityTypeIdentifier \<Rightarrow> 'cb \<Rightarrow> HKUnit option \<Rightarrow>
     ('cb, 'm) world \<Rightarrow> (error + unsubscribe_fn) \<times> ('cb, 'm) world" where
  "on N identifier cb unit w =
     (case actualUnit N identifier unit w of
        (Inl e, w1) \<Rightarrow> (Inl e, w1)
      | (Inr au, w1) \<Rightarrow>
          (let (subscription, w2) =
                 addListener ''onQueryUpdated'' \<lparr>l_identifier = identifier, l_callback = cb\<rparr> w1
           in case Native_observe N (calls w2) identifier au of
                Inl e \<Rightarrow> (Inl e, remove subscription (log_call (Observe identifier au) w2))
              | Inr queryId \<Rightarrow>
                  (Inr \<lparr>u_subscription = subscription, u_queryId = queryId\<rparr>,
                   log_call (Observe identifier au) w2)))"

definition unsubscribe ::
  "('m, 'q) Native \<Rightarrow> unsubscribe_fn \<Rightarrow> ('cb, 'm) world \<Rightarrow> (error + bool) \<times> ('cb, 'm) world" where
  "unsubscribe N u w =
     (let w1 = remove (u_subscription u) w
      in (Native_stopObserving N (calls w1) (u_queryId u),
          log_call (StopObserving (u_queryId u)) w1))"

text \<open>
  An event of the native module reaches every listener registered for its event type, in
  the order of registration.
\<close>

definition emit :: "runtime \<Rightarrow> string \<Rightarrow> 'm event \<Rightarrow> ('cb, 'm) world \<Rightarrow> ('cb, 'm) world" where
  "emit R eventType ev w =
     foldl (\<lambda>w' (t, l). if t = eventType then listener R l ev w' else w') w (registered w)"

text \<open>
  The options of \<^verbatim>\<open>save\<close>: \<^verbatim>\<open>{start?: Date; end?: Date; metadata?: any}\<close>, an
  omitted date being \<open>None\<close> and omitted metadata \<open>JUndefined\<close>. A \<^verbatim>\<open>Date\<close> object is
  always truthy, so \<^verbatim>\<open>a || b\<close> on optional dates takes \<open>a\<close> whenever it is given.
  \<^verbatim>\<open>save\<close> is not an async function: the RangeError of \<^verbatim>\<open>toISOString\<close> leaves it
  before the bridge is called.
\<close>

record save_options =
  opt_start :: "Date option"
  opt_end :: "Date option"
  opt_metadata :: jsval

definition save ::
  "runtime \<Rightarrow> ('m, 'q) Native \<Rightarrow> HKQuantityTypeIdentifier \<Rightarrow> HKUnit \<Rightarrow> number \<Rightarrow>
     save_options option \<Rightarrow> ('cb, 'm) world \<Rightarrow> (error + bool) \<times> ('cb, 'm) world" where
  "save R N identifier unit val options w =
     (let ostart = (case options of None \<Rightarrow> None | Some opts \<Rightarrow> opt_start opts);
          oend = (case options of None \<Rightarrow> None | Some opts \<Rightarrow> opt_end opts);
          ometadata = (case options of None \<Rightarrow> JUndefined | Some opts \<Rightarrow> opt_metadata opts);
          (start, w1) =
            (case ostart of
               Some d \<Rightarrow> (d, w)
             | None \<Rightarrow> (case oend of Some d \<Rightarrow> (d, w) | None \<Rightarrow> new_Date_now R w));
          (end', w2) =
            (case oend of
               Some d \<Rightarrow> (d, w1)
             | None \<Rightarrow> (case ostart of Some d \<Rightarrow> (d, w1) | None \<Rightarrow> new_Date_now R w1));
          metadata = (if truthy ometadata then ometadata else JObject [])
      in case toISOString start of
           Inl e \<Rightarrow> (Inl e, w2)
         | Inr s \<Rightarrow>
             (case toISOString end' of
                Inl e \<Rightarrow> (Inl e, w2)
              | Inr t \<Rightarrow>
                  (Native_save N (calls w2) identifier unit val s t metadata,
                   log_call (Save identifier unit val s t metadata) w2)))"

definition getStatsBetween ::
  "runtime \<Rightarrow> ('m, 'q) Native \<Rightarrow> HKQuantityTypeIdentifier \<Rightarrow> HKStatisticsOptions list \<Rightarrow>
     Date \<Rightarrow> Date option \<Rightarrow> HKUnit option \<Rightarrow> ('cb, 'm) world \<Rightarrow>
     (error + 'q StatsResponse) \<times> ('cb, 'm) world" where
  "getStatsBetween R N identifier options fromDate to unit w =
     (case actualUnit N identifier unit w of
        (Inl e, w1) \<Rightarrow> (Inl e, w1)
      | (Inr au, w1) \<Rightarrow>
          (let (toDate, w2) = (case to of Some d \<Rightarrow> (d, w1) | None \<Rightarrow> new_Date_now R w1)
           in case toISOString fromDate of
                Inl e \<Rightarrow> (Inl e, w2)
              | Inr f \<Rightarrow>
                  (case toISOString toDate of
                     Inl e \<Rightarrow> (Inl e, w2)
                   | Inr t \<Rightarrow>
                       (case Native_getStatsBetween N (calls w2) identifier au f t options of
                          Inl e \<Rightarrow> (Inl e, log_call (GetStatsBetween identifier au f t options) w2)
                        | Inr raw \<Rightarrow>
                            (Inr \<lparr>mostRecentQuantityDateInterval =
                                    (case mostRecentQuantityDateInterval raw of
                                       None \<Rightarrow> None
                                     | Some i \<Rightarrow>
                                         Some \<lparr>i_from = new_Date R (i_from i),
                                               i_to = new_Date R (i_to i)\<rparr>),
                                  \<dots> = stats.more raw\<rparr>,
                             log_call (GetStatsBetween identifier au f t options) w2)))))"

text \<open>
  The two authorization functions build their permission objects with
  \<^verbatim>\<open>reduce((obj, cur) => ({...obj, [cur]: true}), {})\<close> and hand them to the bridge,
  write permissions first. \<^verbatim>\<open>write\<close> defaults to the empty array.
\<close>

definition requestAuthorization ::
  "('m, 'q) Native \<Rightarrow> string list \<Rightarrow> string list option \<Rightarrow> ('cb, 'm) world \<Rightarrow>
     (error + bool) \<times> ('cb, 'm) world" where
  "requestAuthorization N read write w =
     (let readPermissions = foldl (\<lambda>obj cur. obj(cur \<mapsto> True)) Map.empty read;
          writePermissions =
            foldl (\<lambda>obj cur. obj(cur \<mapsto> True)) Map.empty
              (case write of None \<Rightarrow> [] | Some ws \<Rightarrow> ws)
      in (Native_requestAuthorization N (calls w) writePermissions readPermissions,
          log_call (RequestAuthorization writePermissions readPermissions) w))"

definition getRequestStatusForAuthorization ::
  "('m, 'q) Native \<Rightarrow> string list \<Rightarrow> string list option \<Rightarrow> ('cb, 'm) world \<Rightarrow>
     (error + HKAuthorizationRequestStatus) \<times> ('cb, 'm) world" where
  "getRequestStatusForAuthorization N read write w =
     (let readPermissions = foldl (\<lambda>obj cur. obj(cur \<mapsto> True)) Map.empty read;
          writePermissions =
            foldl (\<lambda>obj cur. obj(cur \<mapsto> True)) Map.empty
              (case write of None \<Rightarrow> [] | Some ws \<Rightarrow> ws)
      in (Native_getRequestStatusForAuthorization N (calls w) writePermissions readPermissions,
          log_call (GetRequestStatusForAuthorization writePermissions readPermissions) w))"

text \<open>
  The spec's \<^verbatim>\<open>flatten\<close>, in its own words: the presence-map of a set of identifiers.
\<close>

definition flatten :: "string set \<Rightarrow> permissions" where
  "flatten S = (\<lambda>k. if k \<in> S then Some True else None)"

section \<open>A native module and a world for concrete examples\<close>

definition example_raw :: "quantity_fields QuantitySampleRaw" where
  "example_raw =
     \<lparr>startDate = ''2024-01-01T00:00:00.000Z'', endDate = ''2024-01-01T00:05:00.000Z'',
      uuid = ''A1'', quantityType = ''stepCount'', quantity = 120, sample_unit = ''count''\<rparr>"

definition example_stats :: "stats_fields StatsResponseRaw" where
  "example_stats =
     \<lparr>mostRecentQuantityDateInterval =
        Some \<lparr>i_from = ''2024-01-01T00:00:00.000Z'', i_to = ''2024-01-02T00:00:00.000Z''\<rparr>,
      averageQuantity = None, sumQuantity = Some 120, stats_unit = ''count''\<rparr>"

text \<open>
  The example module knows one preferred unit, answers every query with one sample, and
  reports \<^verbatim>\<open>true\<close> for the first \<^verbatim>\<open>stopObserving\<close> of a query and \<^verbatim>\<open>false\<close>
  for a repeated one.
\<close>

definition example_native :: "(quantity_fields, stats_fields) Native" where
  "example_native =
     \<lparr>Native_getPreferredUnits = (\<lambda>h ids. Inr [''stepCount'' \<mapsto> ''count'']),
      Native_getLastSamples = (\<lambda>h i n u. Inr [example_raw]),
      Native_observe = (\<lambda>h i u. Inr ''query-1''),
      Native_stopObserving = (\<lambda>h q. Inr (StopObserving q \<notin> set h)),
      Native_requestAuthorization = (\<lambda>h wr rd. Inr True),
      Native_getRequestStatusForAuthorization = (\<lambda>h wr rd. Inr shouldRequest),
      Native_save = (\<lambda>h i u v s e m. Inr True),
      Native_getStatsBetween = (\<lambda>h i u f t os. Inr example_stats)\<rparr>"

definition example_world :: "(string, quantity_fields) world" where
  "example_world = \<lparr>calls = [], listeners = [], invoked = [], ticks = 0\<rparr>"

definition example_sample :: "quantity_fields QuantitySample" where
  "example_sample =
     \<lparr>startDate = Date (Some 1704067200000), endDate = Date (Some 1704067500000),
      uuid = ''A1'', quantityType = ''stepCount'', quantity = 120, sample_unit = ''count''\<rparr>"

text \<open>A sample whose start date is not a date, and a module that answers with it.\<close>

definition unparseable_raw :: "quantity_fields QuantitySampleRaw" where
  "unparseable_raw =
     \<lparr>startDate = ''not a date'', endDate = ''2024-01-01T00:05:00.000Z'',
      uuid = ''A2'', quantityType = ''stepCount'', quantity = 7, sample_unit = ''count''\<rparr>"

definition unparseable_native :: "(quantity_fields, stats_fields) Native" where
  "unparseable_native =
     example_native\<lparr>Native_getLastSamples := (\<lambda>h i n u. Inr [unparseable_raw])\<rparr>"

text \<open>A module with no samples, one that refuses to observe, one without the interval.\<close>

definition empty_native :: "(quantity_fields, stats_fields) Native" where
  "empty_native = example_native\<lparr>Native_getLastSamples := (\<lambda>h i n u. Inr [])\<rparr>"

definition rejecting_native :: "(quantity_fields, stats_fields) Native" where
  "rejecting_native =
     example_native\<lparr>Native_observe := (\<lambda>h i u. Inl (Rejected ''not authorized''))\<rparr>"

definition absent_stats :: "stats_fields StatsResponseRaw" where
  "absent_stats =
     \<lparr>mostRecentQuantityDateInterval = None,
      averageQuantity = Some 4, sumQuantity = Some 120, stats_unit = ''count''\<rparr>"

definition absent_native :: "(quantity_fields, stats_fields) Native" where
  "absent_native =
     example_native\<lparr>Native_getStatsBetween := (\<lambda>h i u f t os. Inr absent_stats)\<rparr>"

text \<open>Two events, and the world after one successful subscription to step counts.\<close>

definition example_event :: "quantity_fields event" where
  "example_event = \<lparr>samples = [example_raw], typeIdentifier = ''stepCount''\<rparr>"

definition other_event :: "quantity_fields event" where
  "other_event = \<lparr>samples = [example_raw], typeIdentifier = ''heartRate''\<rparr>"

definition example_unsubscribe :: unsubscribe_fn where
  "example_unsubscribe = \<lparr>u_subscription = 0, u_queryId = ''query-1''\<rparr>"

definition subscribed_world :: "(string, quantity_fields) world" where
  "subscribed_world =
     \<lparr>calls = [Observe ''stepCount'' (Some ''count'')],
      listeners = [Some (''onQueryUpdated'', \<lparr>l_identifier = ''stepCount'', l_callback = ''cb''\<rparr>)],
      invoked = [], ticks = 0\<rparr>"

section \<open>Facts about the model\<close>

subsection \<open>The reference dates\<close>

lemma parse_example_start: "strict_iso_parse ''2024-01-01T00:00:00.000Z'' = Some 1704067200000"
  by code_simp

lemma parse_example_end: "strict_iso_parse ''2024-01-01T00:05:00.000Z'' = Some 1704067500000"
  by code_simp

lemma parse_example_next_day: "strict_iso_parse ''2024-01-02T00:00:00.000Z'' = Some 1704153600000"
  by code_simp

lemma parse_not_a_date: "strict_iso_parse ''not a date'' = None"
  by code_simp

lemma iso_example_start: "iso_string 1704067200000 = ''2024-01-01T00:00:00.000Z''"
  by code_simp

lemma iso_example_tick: "iso_string 1704067200001 = ''2024-01-01T00:00:00.001Z''"
  by code_simp

lemma iso_example_end: "iso_string 1704067500000 = ''2024-01-01T00:05:00.000Z''"
  by code_simp

lemma new_Date_reference: "new_Date reference_runtime s = Date (strict_iso_parse s)"
  by (simp add: new_Date_def reference_runtime_def)

lemma deserialize_example: "deserializeSample reference_runtime example_raw = example_sample"
  by (simp add: deserializeSample_def example_raw_def example_sample_def new_Date_reference
      parse_example_start parse_example_end)

subsection \<open>What each step does to the world\<close>

lemma log_call_simps:
  "calls (log_call c w) = calls w @ [c]"
  "listeners (log_call c w) = listeners w"
  "invoked (log_call c w) = invoked w"
  "ticks (log_call c w) = ticks w"
  by (simp_all add: log_call_def)

lemma remove_simps:
  "calls (remove k w) = calls w"
  "listeners (remove k w) = (listeners w)[k := None]"
  "invoked (remove k w) = invoked w"
  "ticks (remove k w) = ticks w"
  by (simp_all add: remove_def)

lemma actualUnit_explicit: "u \<noteq> [] \<Longrightarrow> actualUnit N i (Some u) w = (Inr (Some u), w)"
  by (simp add: actualUnit_def)

lemma actualUnit_empty: "actualUnit N i (Some []) w = actualUnit N i None w"
  by (simp add: actualUnit_def)

lemma actualUnit_omitted:
  "actualUnit N i None w =
     (case Native_getPreferredUnits N (calls w) [i] of
        Inl e \<Rightarrow> (Inl e, log_call (GetPreferredUnits [i]) w)
      | Inr m \<Rightarrow> (Inr (m i), log_call (GetPreferredUnits [i]) w))"
  by (simp add: actualUnit_def getPreferredUnit_def)

lemma actualUnit_frame:
  assumes "actualUnit N i unit w = (r, w1)"
  shows "listeners w1 = listeners w" and "invoked w1 = invoked w" and "ticks w1 = ticks w"
  using assms
  by (auto simp: actualUnit_def getPreferredUnit_def log_call_simps
      split: option.splits if_splits sum.splits)

lemma calls_getLastSamples:
  "calls (snd (getLastSamples R N identifier limit unit w)) =
     (case actualUnit N identifier unit w of
        (Inl e, w1) \<Rightarrow> calls w1
      | (Inr au, w1) \<Rightarrow>
          calls w1 @ [GetLastSamples identifier (case limit of None \<Rightarrow> 1 | Some l \<Rightarrow> l) au])"
  by (simp add: getLastSamples_def Let_def log_call_simps split: prod.splits sum.splits)

lemma calls_getLastSample:
  "calls (snd (getLastSample R N identifier unit w)) =
     calls (snd (getLastSamples R N identifier (Some 1) unit w))"
  by (simp add: getLastSample_def split: prod.splits sum.splits)

lemma calls_on:
  "calls (snd (on N identifier cb unit w)) =
     (case actualUnit N identifier unit w of
        (Inl e, w1) \<Rightarrow> calls w1
      | (Inr au, w1) \<Rightarrow> calls w1 @ [Observe identifier au])"
  by (simp add: on_def addListener_def log_call_simps remove_simps
      split: prod.splits sum.splits)

lemma calls_getStatsBetween:
  "calls (snd (getStatsBetween R N identifier options fromDate to unit w)) =
     (case actualUnit N identifier unit w of
        (Inl e, w1) \<Rightarrow> calls w1
      | (Inr au, w1) \<Rightarrow>
          calls w1 @
          (case toISOString fromDate of
             Inl e \<Rightarrow> []
           | Inr f \<Rightarrow>
               (case toISOString (case to of Some d \<Rightarrow> d
                                           | None \<Rightarrow> Date (Some (Date_now R (ticks w1)))) of
                  Inl e \<Rightarrow> []
                | Inr t \<Rightarrow> [GetStatsBetween identifier au f t options])))"
  by (auto simp: getStatsBetween_def new_Date_now_def log_call_simps
      split: prod.splits sum.splits option.splits)

subsection \<open>Subscriptions\<close>

lemma on_rejected:
  assumes "actualUnit N identifier unit w = (Inr au, w1)"
    and "Native_observe N (calls w1) identifier au = Inl e"
  shows "on N identifier cb unit w =
           (Inl e, w1\<lparr>calls := calls w1 @ [Observe identifier au],
                      listeners := listeners w1 @ [None]\<rparr>)"
  using assms by (simp add: on_def addListener_def remove_def log_call_def)

lemma on_resolved:
  assumes "on N identifier cb unit w = (Inr u, w')"
  shows "\<exists>au w1. actualUnit N identifier unit w = (Inr au, w1) \<and>
           Native_observe N (calls w1) identifier au = Inr (u_queryId u) \<and>
           u_subscription u = length (listeners w) \<and>
           w' = w1\<lparr>calls := calls w1 @ [Observe identifier au],
                   listeners := listeners w1 @
                     [Some (''onQueryUpdated'', \<lparr>l_identifier = identifier, l_callback = cb\<rparr>)]\<rparr>"
  using assms
  by (auto simp: on_def addListener_def remove_def log_call_def
      split: prod.splits sum.splits dest: actualUnit_frame)

lemma on_example:
  "on example_native ''stepCount'' ''cb'' (Some ''count'') example_world =
     (Inr example_unsubscribe, subscribed_world)"
  by (simp add: on_def actualUnit_def addListener_def log_call_def example_native_def
      example_world_def example_unsubscribe_def subscribed_world_def)

lemma unsubscribe_eq:
  "unsubscribe N u w =
     (Native_stopObserving N (calls w) (u_queryId u),
      w\<lparr>listeners := (listeners w)[u_subscription u := None],
        calls := calls w @ [StopObserving (u_queryId u)]\<rparr>)"
  by (simp add: unsubscribe_def remove_def log_call_def Let_def)

text \<open>What an event delivers to the listeners that are registered.\<close>

lemma invoked_listener:
  "invoked (listener R l ev w) =
     invoked w @ (if typeIdentifier ev = l_identifier l
                  then [(l_callback l, map (deserializeSample R) (samples ev))] else [])"
  by (simp add: listener_def callback_def)

lemma invoked_foldl_listeners:
  "invoked (foldl (\<lambda>w' (t, l). if t = eventType then listener R l ev w' else w') w ls) =
     invoked w @
     concat (map (\<lambda>(t, l). if t = eventType \<and> typeIdentifier ev = l_identifier l
                            then [(l_callback l, map (deserializeSample R) (samples ev))] else []) ls)"
proof (induction ls arbitrary: w)
  case Nil
  then show ?case by simp
next
  case (Cons a ls)
  obtain t l where a: "a = (t, l)" by (cases a)
  show ?case
    by (simp add: a Cons.IH invoked_listener)
qed

lemma invoked_emit:
  "invoked (emit R eventType ev w) =
     invoked w @
     concat (map (\<lambda>(t, l). if t = eventType \<and> typeIdentifier ev = l_identifier l
                            then [(l_callback l, map (deserializeSample R) (samples ev))] else [])
               (registered w))"
  by (simp add: emit_def invoked_foldl_listeners)

subsection \<open>Statistics, saving, permissions\<close>

lemma getStatsBetween_resolved:
  assumes "actualUnit N identifier unit w = (Inr au, w1)"
    and "toISOString fromDate = Inr f"
    and "toISOString (case to of Some d \<Rightarrow> d | None \<Rightarrow> Date (Some (Date_now R (ticks w)))) = Inr t"
    and "Native_getStatsBetween N (calls w1) identifier au f t options = Inr raw"
  shows "fst (getStatsBetween R N identifier options fromDate to unit w) =
           Inr \<lparr>mostRecentQuantityDateInterval =
                  (case mostRecentQuantityDateInterval raw of
                     None \<Rightarrow> None
                   | Some i \<Rightarrow> Some \<lparr>i_from = new_Date R (i_from i), i_to = new_Date R (i_to i)\<rparr>),
                \<dots> = stats.more raw\<rparr>"
proof -
  have tk: "ticks w1 = ticks w"
    using assms(1) by (rule actualUnit_frame)
  show ?thesis
    using assms by (cases to) (simp_all add: getStatsBetween_def new_Date_now_def tk)
qed

lemma save_one_date:
  assumes "toISOString d = Inr s"
    and "(st = None \<and> en = Some d) \<or> (st = Some d \<and> en = None)"
  shows "save R N identifier unit val
           (Some \<lparr>opt_start = st, opt_end = en, opt_metadata = md\<rparr>) w =
         (Native_save N (calls w) identifier unit val s s (if truthy md then md else JObject []),
          log_call (Save identifier unit val s s (if truthy md then md else JObject [])) w)"
  using assms by (auto simp: save_def Let_def)

lemma save_no_options:
  "save R N identifier unit val None w =
     (Native_save N (calls w) identifier unit val
        (iso_string (Date_now R (ticks w))) (iso_string (Date_now R (Suc (ticks w))))
        (JObject []),
      log_call (Save identifier unit val
        (iso_string (Date_now R (ticks w))) (iso_string (Date_now R (Suc (ticks w))))
        (JObject [])) (w\<lparr>ticks := Suc (Suc (ticks w))\<rparr>))"
  by (simp add: save_def Let_def new_Date_now_def toISOString_def log_call_def)

lemma save_no_dates:
  "save R N identifier unit val
     (Some \<lparr>opt_start = None, opt_end = None, opt_metadata = md\<rparr>) w =
     (Native_save N (calls w) identifier unit val
        (iso_string (Date_now R (ticks w))) (iso_string (Date_now R (Suc (ticks w))))
        (if truthy md then md else JObject []),
      log_call (Save identifier unit val
        (iso_string (Date_now R (ticks w))) (iso_string (Date_now R (Suc (ticks w))))
        (if truthy md then md else JObject [])) (w\<lparr>ticks := Suc (Suc (ticks w))\<rparr>))"
  by (simp add: save_def Let_def new_Date_now_def toISOString_def log_call_def)

text \<open>An invalid date never reaches the bridge: \<^verbatim>\<open>toISOString\<close> throws first.\<close>

lemma save_invalid_date:
  "save R N identifier unit val
     (Some \<lparr>opt_start = Some (Date None), opt_end = en, opt_metadata = md\<rparr>) w =
   (Inl RangeError, w)"
  by (cases en) (simp_all add: save_def Let_def toISOString_def)

lemma foldl_presence_apply:
  "foldl (\<lambda>obj cur. obj(cur \<mapsto> True)) m xs k = (if k \<in> set xs then Some True else m k)"
  by (induction xs arbitrary: m) simp_all

lemma reduce_flatten: "foldl (\<lambda>obj cur. obj(cur \<mapsto> True)) Map.empty xs = flatten (set xs)"
  by (rule ext) (simp add: foldl_presence_apply flatten_def)

section \<open>The claims\<close>

subsection \<open>C1: resolving the unit\<close>

text \<open>
  Claim C1, as amended. For each of \<^verbatim>\<open>getLastSamples\<close>, \<^verbatim>\<open>getLastSample\<close>,
  \<^verbatim>\<open>on\<close> and \<^verbatim>\<open>getStatsBetween\<close>: an explicit unit that is not the empty string
  goes to the bridge unchanged and the preferred-unit endpoint is not called (the only
  request the operation adds is its own, carrying that unit); with the unit omitted the
  operation makes exactly one \<^verbatim>\<open>getPreferredUnits\<close> request, for the one identifier, and
  its own request carries the unit that answer gives for the identifier (a rejected answer
  ends the operation); the empty string as unit is treated as an omitted unit. The request
  of \<^verbatim>\<open>getStatsBetween\<close> is sent only when its dates have ISO strings.
\<close>

theorem unit_resolution:
  assumes "u \<noteq> []"
  shows
    "calls (snd (getLastSamples R N identifier limit (Some u) w)) =
       calls w @ [GetLastSamples identifier (case limit of None \<Rightarrow> 1 | Some l \<Rightarrow> l) (Some u)] \<and>
     calls (snd (getLastSample R N identifier (Some u) w)) =
       calls w @ [GetLastSamples identifier 1 (Some u)] \<and>
     calls (snd (on N identifier cb (Some u) w)) = calls w @ [Observe identifier (Some u)] \<and>
     calls (snd (getStatsBetween R N identifier options fromDate to (Some u) w)) =
       calls w @
       (case toISOString fromDate of
          Inl e \<Rightarrow> []
        | Inr f \<Rightarrow>
            (case toISOString (case to of Some d \<Rightarrow> d
                                        | None \<Rightarrow> Date (Some (Date_now R (ticks w)))) of
               Inl e \<Rightarrow> []
             | Inr t \<Rightarrow> [GetStatsBetween identifier (Some u) f t options])) \<and>
     calls (snd (getLastSamples R N identifier limit None w)) =
       calls w @ GetPreferredUnits [identifier] #
       (case Native_getPreferredUnits N (calls w) [identifier] of
          Inl e \<Rightarrow> []
        | Inr m \<Rightarrow>
            [GetLastSamples identifier (case limit of None \<Rightarrow> 1 | Some l \<Rightarrow> l) (m identifier)]) \<and>
     calls (snd (getLastSample R N identifier None w)) =
       calls w @ GetPreferredUnits [identifier] #
       (case Native_getPreferredUnits N (calls w) [identifier] of
          Inl e \<Rightarrow> []
        | Inr m \<Rightarrow> [GetLastSamples identifier 1 (m identifier)]) \<and>
     calls (snd (on N identifier cb None w)) =
       calls w @ GetPreferredUnits [identifier] #
       (case Native_getPreferredUnits N (calls w) [identifier] of
          Inl e \<Rightarrow> []
        | Inr m \<Rightarrow> [Observe identifier (m identifier)]) \<and>
     calls (snd (getStatsBetween R N identifier options fromDate to None w)) =
       calls w @ GetPreferredUnits [identifier] #
       (case Native_getPreferredUnits N (calls w) [identifier] of
          Inl e \<Rightarrow> []
        | Inr m \<Rightarrow>
            (case toISOString fromDate of
               Inl e \<Rightarrow> []
             | Inr f \<Rightarrow>
                 (case toISOString (case to of Some d \<Rightarrow> d
                                             | None \<Rightarrow> Date (Some (Date_now R (ticks w)))) of
                    Inl e \<Rightarrow> []
                  | Inr t \<Rightarrow> [GetStatsBetween identifier (m identifier) f t options]))) \<and>
     getLastSamples R N identifier limit (Some []) w = getLastSamples R N identifier limit None w \<and>
     getLastSample R N identifier (Some []) w = getLastSample R N identifier None w \<and>
     on N identifier cb (Some []) w = on N identifier cb None w \<and>
     getStatsBetween R N identifier options fromDate to (Some []) w =
       getStatsBetween R N identifier options fromDate to None w"
proof -
  have e: "actualUnit N identifier (Some u) w = (Inr (Some u), w)"
    using assms by (rule actualUnit_explicit)
  have 1: "calls (snd (getLastSamples R N identifier limit (Some u) w)) =
       calls w @ [GetLastSamples identifier (case limit of None \<Rightarrow> 1 | Some l \<Rightarrow> l) (Some u)]"
    for limit
    by (simp add: calls_getLastSamples e)
  have 2: "calls (snd (getLastSample R N identifier (Some u) w)) =
       calls w @ [GetLastSamples identifier 1 (Some u)]"
    by (simp add: calls_getLastSample 1)
  have 3: "calls (snd (on N identifier cb (Some u) w)) = calls w @ [Observe identifier (Some u)]"
    by (simp add: calls_on e)
  have 4: "calls (snd (getStatsBetween R N identifier options fromDate to (Some u) w)) =
       calls w @
       (case toISOString fromDate of
          Inl e \<Rightarrow> []
        | Inr f \<Rightarrow>
            (case toISOString (case to of Some d \<Rightarrow> d
                                        | None \<Rightarrow> Date (Some (Date_now R (ticks w)))) of
               Inl e \<Rightarrow> []
             | Inr t \<Rightarrow> [GetStatsBetween identifier (Some u) f t options]))"
    by (simp add: calls_getStatsBetween e)
  have 5: "calls (snd (getLastSamples R N identifier limit None w)) =
       calls w @ GetPreferredUnits [identifier] #
       (case Native_getPreferredUnits N (calls w) [identifier] of
          Inl e \<Rightarrow> []
        | Inr m \<Rightarrow>
            [GetLastSamples identifier (case limit of None \<Rightarrow> 1 | Some l \<Rightarrow> l) (m identifier)])"
    for limit
    by (simp add: calls_getLastSamples actualUnit_omitted log_call_simps split: sum.splits)
  have 6: "calls (snd (getLastSample R N identifier None w)) =
       calls w @ GetPreferredUnits [identifier] #
       (case Native_getPreferredUnits N (calls w) [identifier] of
          Inl e \<Rightarrow> []
        | Inr m \<Rightarrow> [GetLastSamples identifier 1 (m identifier)])"
    by (simp add: calls_getLastSample 5 split: sum.splits)
  have 7: "calls (snd (on N identifier cb None w)) =
       calls w @ GetPreferredUnits [identifier] #
       (case Native_getPreferredUnits N (calls w) [identifier] of
          Inl e \<Rightarrow> []
        | Inr m \<Rightarrow> [Observe identifier (m identifier)])"
    by (simp add: calls_on actualUnit_omitted log_call_simps split: sum.splits)
  have 8: "calls (snd (getStatsBetween R N identifier options fromDate to None w)) =
       calls w @ GetPreferredUnits [identifier] #
       (case Native_getPreferredUnits N (calls w) [identifier] of
          Inl e \<Rightarrow> []
        | Inr m \<Rightarrow>
            (case toISOString fromDate of
               Inl e \<Rightarrow> []
             | Inr f \<Rightarrow>
                 (case toISOString (case to of Some d \<Rightarrow> d
                                             | None \<Rightarrow> Date (Some (Date_now R (ticks w)))) of
                    Inl e \<Rightarrow> []
                  | Inr t \<Rightarrow> [GetStatsBetween identifier (m identifier) f t options])))"
  proof (cases "Native_getPreferredUnits N (calls w) [identifier]")
    case (Inl e)
    then show ?thesis
      by (simp add: calls_getStatsBetween actualUnit_omitted log_call_simps)
  next
    case (Inr m)
    then show ?thesis
      by (cases to; cases "toISOString fromDate")
        (simp_all add: calls_getStatsBetween actualUnit_omitted log_call_simps)
  qed
  have 9: "getLastSamples R N identifier limit (Some []) w =
      getLastSamples R N identifier limit None w" for limit
    by (simp add: getLastSamples_def actualUnit_empty)
  have 10: "getLastSample R N identifier (Some []) w = getLastSample R N identifier None w"
    by (simp add: getLastSample_def 9)
  have 11: "on N identifier cb (Some []) w = on N identifier cb None w"
    by (simp add: on_def actualUnit_empty)
  have 12: "getStatsBetween R N identifier options fromDate to (Some []) w =
       getStatsBetween R N identifier options fromDate to None w"
    by (simp add: getStatsBetween_def actualUnit_empty)
  show ?thesis
    using 1 2 3 4 5 6 7 8 9 10 11 12 by blast
qed

text \<open>
  The claim as first stated fails on the empty string: supplied explicitly, it is not
  passed through. The preferred-unit endpoint is called and its answer is sent instead.
\<close>

theorem unit_resolution_counterexample:
  "calls (snd (getLastSamples reference_runtime example_native ''stepCount'' (Some 1) (Some '''')
        example_world)) =
     [GetPreferredUnits [''stepCount''], GetLastSamples ''stepCount'' 1 (Some ''count'')]"
  by (simp add: calls_getLastSamples actualUnit_def getPreferredUnit_def log_call_simps
      example_native_def example_world_def)

theorem unit_resolution_witness:
  "calls (snd (getLastSamples reference_runtime example_native ''stepCount'' None (Some ''count'')
        example_world)) = [GetLastSamples ''stepCount'' 1 (Some ''count'')] \<and>
   calls (snd (on example_native ''stepCount'' ''cb'' (Some ''count'') example_world)) =
     [Observe ''stepCount'' (Some ''count'')] \<and>
   calls (snd (getLastSample reference_runtime example_native ''stepCount'' None example_world)) =
     [GetPreferredUnits [''stepCount''], GetLastSamples ''stepCount'' 1 (Some ''count'')] \<and>
   calls (snd (getLastSample reference_runtime example_native ''heartRate'' None example_world)) =
     [GetPreferredUnits [''heartRate''], GetLastSamples ''heartRate'' 1 None]"
  using unit_resolution [of "''count''" reference_runtime example_native "''stepCount''" None
      example_world "''cb''" "[]" "Date None" None]
    unit_resolution [of "''count''" reference_runtime example_native "''heartRate''" None
      example_world "''cb''" "[]" "Date None" None]
  by (simp add: example_native_def example_world_def)

subsection \<open>C2: a subscription that fails to start\<close>

text \<open>
  Claim C2. When the unit is resolved and \<^verbatim>\<open>Native.observe\<close> rejects, \<^verbatim>\<open>on\<close> rejects
  with the same error, and the listener it had registered is gone: its slot in the emitter
  is empty and the registered listeners are those from before the call.
\<close>

theorem on_observe_rejected:
  assumes "actualUnit N identifier unit w = (Inr au, w1)"
    and "Native_observe N (calls w1) identifier au = Inl e"
  shows "fst (on N identifier cb unit w) = Inl e \<and>
         listeners (snd (on N identifier cb unit w)) = listeners w @ [None] \<and>
         registered (snd (on N identifier cb unit w)) = registered w"
proof -
  have l: "listeners w1 = listeners w"
    using assms(1) by (rule actualUnit_frame)
  have "on N identifier cb unit w =
          (Inl e, w1\<lparr>calls := calls w1 @ [Observe identifier au],
                     listeners := listeners w1 @ [None]\<rparr>)"
    using assms by (rule on_rejected)
  then show ?thesis
    using l by (simp add: registered_def)
qed

theorem on_observe_rejected_witness:
  "fst (on rejecting_native ''stepCount'' ''cb'' (Some ''count'') example_world) =
     Inl (Rejected ''not authorized'') \<and>
   listeners (snd (on rejecting_native ''stepCount'' ''cb'' (Some ''count'') example_world)) =
     [None] \<and>
   registered (snd (on rejecting_native ''stepCount'' ''cb'' (Some ''count'') example_world)) = []"
  using on_observe_rejected [of rejecting_native "''stepCount''" "Some ''count''" example_world
      "Some ''count''" example_world "Rejected ''not authorized''" "''cb''"]
  by (simp add: actualUnit_def rejecting_native_def example_native_def example_world_def
      registered_def)

subsection \<open>C3: permission maps\<close>

text \<open>
  Claim C3. \<^verbatim>\<open>requestAuthorization\<close> and \<^verbatim>\<open>getRequestStatusForAuthorization\<close> send
  the bridge the presence-map of the write identifiers and the presence-map of the read
  identifiers (\<open>flatten\<close> of the set of each list, an omitted write list being empty) and
  return what the bridge answers. The presence-map of no identifiers is the empty map,
  that of \<open>a\<close> and \<open>b\<close> maps both to true, and lists with the same elements, in any
  order and with any repetition, give the same call.
\<close>

theorem authorization_flattens:
  "requestAuthorization N read write w =
     (Native_requestAuthorization N (calls w)
        (flatten (set (case write of None \<Rightarrow> [] | Some ws \<Rightarrow> ws))) (flatten (set read)),
      log_call (RequestAuthorization
        (flatten (set (case write of None \<Rightarrow> [] | Some ws \<Rightarrow> ws))) (flatten (set read))) w) \<and>
   getRequestStatusForAuthorization N read write w =
     (Native_getRequestStatusForAuthorization N (calls w)
        (flatten (set (case write of None \<Rightarrow> [] | Some ws \<Rightarrow> ws))) (flatten (set read)),
      log_call (GetRequestStatusForAuthorization
        (flatten (set (case write of None \<Rightarrow> [] | Some ws \<Rightarrow> ws))) (flatten (set read))) w) \<and>
   flatten {} = Map.empty \<and>
   flatten {a, b} = [a \<mapsto> True, b \<mapsto> True] \<and>
   (set read = set read' \<longrightarrow>
      requestAuthorization N read write w = requestAuthorization N read' write w \<and>
      getRequestStatusForAuthorization N read write w =
        getRequestStatusForAuthorization N read' write w)"
proof -
  have 1: "flatten {a, b} = [a \<mapsto> True, b \<mapsto> True]"
    by (auto simp: flatten_def fun_eq_iff)
  have 2: "flatten {} = Map.empty"
    by (simp add: flatten_def)
  have 3: "requestAuthorization N read write w =
     (Native_requestAuthorization N (calls w)
        (flatten (set (case write of None \<Rightarrow> [] | Some ws \<Rightarrow> ws))) (flatten (set read)),
      log_call (RequestAuthorization
        (flatten (set (case write of None \<Rightarrow> [] | Some ws \<Rightarrow> ws))) (flatten (set read))) w)"
    for read
    by (simp add: requestAuthorization_def reduce_flatten Let_def)
  have 4: "getRequestStatusForAuthorization N read write w =
     (Native_getRequestStatusForAuthorization N (calls w)
        (flatten (set (case write of None \<Rightarrow> [] | Some ws \<Rightarrow> ws))) (flatten (set read)),
      log_call (GetRequestStatusForAuthorization
        (flatten (set (case write of None \<Rightarrow> [] | Some ws \<Rightarrow> ws))) (flatten (set read))) w)"
    for read
    by (simp add: getRequestStatusForAuthorization_def reduce_flatten Let_def)
  have 5: "requestAuthorization N read write w = requestAuthorization N read' write w"
    and 6: "getRequestStatusForAuthorization N read write w =
        getRequestStatusForAuthorization N read' write w"
    if "set read = set read'"
    using that by (simp_all only: 3 4)
  show ?thesis
    using 1 2 3 4 5 6 by blast
qed

theorem authorization_flattens_witness:
  "requestAuthorization example_native [''A'', ''B''] (Some [''C'']) example_world =
     (Inr True,
      log_call (RequestAuthorization [''C'' \<mapsto> True] [''A'' \<mapsto> True, ''B'' \<mapsto> True])
        example_world) \<and>
   requestAuthorization example_native [''A'', ''B''] (Some [''C'']) example_world =
     requestAuthorization example_native [''B'', ''A'', ''B''] (Some [''C'']) example_world"
proof -
  note t = authorization_flattens [of example_native "[''A'', ''B'']" "Some [''C'']"
      example_world "''A''" "''B''" "[''B'', ''A'', ''B'']"]
  have "flatten {''A'', ''B''} = [''A'' \<mapsto> True, ''B'' \<mapsto> True]"
    using t by blast
  then have ab: "flatten (set [''A'', ''B'']) = [''A'' \<mapsto> True, ''B'' \<mapsto> True]"
    by simp
  have c: "flatten (set [''C'']) = [''C'' \<mapsto> True]"
    by (auto simp: flatten_def fun_eq_iff)
  have 1: "requestAuthorization example_native [''A'', ''B''] (Some [''C'']) example_world =
     (Inr True,
      log_call (RequestAuthorization [''C'' \<mapsto> True] [''A'' \<mapsto> True, ''B'' \<mapsto> True])
        example_world)"
    using t [THEN conjunct1] by (simp only: ab c option.case) (simp add: example_native_def)
  have s: "set [''A'', ''B''] = set [''B'', ''A'', ''B'']"
    by auto
  have 2: "requestAuthorization example_native [''A'', ''B''] (Some [''C'']) example_world =
     requestAuthorization example_native [''B'', ''A'', ''B''] (Some [''C'']) example_world"
    using t s by blast
  show ?thesis
    using 1 2 by (rule conjI)
qed

subsection \<open>C4: date strings that do not parse\<close>

text \<open>
  Claim C4, as amended. \<^verbatim>\<open>deserializeSample\<close> never fails. For a raw sample whose
  \<^verbatim>\<open>startDate\<close> (or \<^verbatim>\<open>endDate\<close>) string does not parse, it returns a sample whose
  \<^verbatim>\<open>startDate\<close> (or \<^verbatim>\<open>endDate\<close>) is an invalid date, every other field as it was;
  and \<^verbatim>\<open>getLastSamples\<close> resolves with the deserialized samples whenever the bridge
  resolves, whatever their date strings are.
\<close>

theorem deserializeSample_unparseable:
  "(Date_parse R (startDate raw) = None \<longrightarrow> startDate (deserializeSample R raw) = Date None) \<and>
   (Date_parse R (endDate raw) = None \<longrightarrow> endDate (deserializeSample R raw) = Date None) \<and>
   sample.more (deserializeSample R raw) = sample.more raw \<and>
   (actualUnit N identifier unit w = (Inr au, w1) \<and>
    Native_getLastSamples N (calls w1) identifier n au = Inr raws \<longrightarrow>
      fst (getLastSamples R N identifier (Some n) unit w) = Inr (map (deserializeSample R) raws))"
  by (simp add: deserializeSample_def new_Date_def getLastSamples_def)

text \<open>
  The claim as first stated fails: the start date of the sample below does not parse, and
  the caller of \<^verbatim>\<open>getLastSamples\<close> receives a resolved promise with the sample in it.
\<close>

theorem deserializeSample_unparseable_counterexample:
  "Date_parse reference_runtime (startDate unparseable_raw) = None \<and>
   fst (getLastSamples reference_runtime unparseable_native ''stepCount'' None (Some ''count'')
          example_world) =
     Inr [\<lparr>startDate = Date None, endDate = Date (Some 1704067500000),
           uuid = ''A2'', quantityType = ''stepCount'', quantity = 7, sample_unit = ''count''\<rparr>]"
  by (simp add: getLastSamples_def actualUnit_def unparseable_native_def example_native_def
      unparseable_raw_def deserializeSample_def reference_runtime_def new_Date_def
      parse_not_a_date parse_example_end)

theorem deserializeSample_unparseable_witness:
  "startDate (deserializeSample reference_runtime unparseable_raw) = Date None \<and>
   sample.more (deserializeSample reference_runtime unparseable_raw) =
     \<lparr>uuid = ''A2'', quantityType = ''stepCount'', quantity = 7, sample_unit = ''count''\<rparr> \<and>
   fst (getLastSamples reference_runtime unparseable_native ''stepCount'' (Some 1) (Some ''count'')
          example_world) =
     Inr [deserializeSample reference_runtime unparseable_raw]"
  using deserializeSample_unparseable [of reference_runtime unparseable_raw unparseable_native
      "''stepCount''" "Some ''count''" example_world "Some ''count''" example_world 1
      "[unparseable_raw]"]
  by (simp add: actualUnit_def unparseable_native_def example_native_def unparseable_raw_def
      reference_runtime_def parse_not_a_date)

subsection \<open>C5: deserializing what was serialized\<close>

text \<open>
  Claim C5. For a sample whose two dates come back from their ISO8601 rendering
  (\<open>new_Date R (render d) = d\<close>), deserializing the serialized sample gives the sample
  back. And \<^verbatim>\<open>deserializeSample\<close> replaces exactly the two date strings by the dates
  parsed from them: every other field of the raw sample is in the result unchanged.
\<close>

theorem deserializeSample_roundtrip:
  assumes "new_Date R (render (startDate s)) = startDate s"
    and "new_Date R (render (endDate s)) = endDate s"
  shows "deserializeSample R (serialize render s) = s \<and>
         startDate (deserializeSample R raw) = new_Date R (startDate raw) \<and>
         endDate (deserializeSample R raw) = new_Date R (endDate raw) \<and>
         sample.more (deserializeSample R raw) = sample.more raw"
  using assms by (simp add: deserializeSample_def serialize_def)

theorem deserializeSample_roundtrip_witness:
  "deserializeSample reference_runtime (serialize render_iso example_sample) = example_sample \<and>
   serialize render_iso example_sample = example_raw \<and>
   sample.more (deserializeSample reference_runtime example_raw) =
     \<lparr>uuid = ''A1'', quantityType = ''stepCount'', quantity = 120, sample_unit = ''count''\<rparr>"
  using deserializeSample_roundtrip [of reference_runtime render_iso example_sample example_raw]
  by (simp add: example_sample_def example_raw_def render_iso_def toISOString_def serialize_def
      new_Date_reference iso_example_start iso_example_end parse_example_start
      parse_example_end)

subsection \<open>C6: which events reach the callback\<close>

text \<open>
  Claim C6. After \<^verbatim>\<open>on(identifier, callback, unit)\<close> has resolved, an event on the
  shared stream invokes the callback, with the event's samples deserialized, exactly when
  the event's \<^verbatim>\<open>typeIdentifier\<close> is the subscription's identifier: what the event
  delivers is what it delivered to the listeners registered before, followed by that one
  invocation if the identifiers are equal and by nothing if they differ. The subscription
  adds one listener, the closure over the identifier and the callback, and invokes nothing
  itself; in any world that listener invokes the callback exactly when the identifiers are
  equal.
\<close>

theorem on_filters_events:
  assumes "on N identifier cb unit w = (Inr u, w')"
  shows "registered w' =
           registered w @ [(''onQueryUpdated'', \<lparr>l_identifier = identifier, l_callback = cb\<rparr>)] \<and>
         invoked w' = invoked w \<and>
         invoked (emit R ''onQueryUpdated'' ev w') =
           invoked (emit R ''onQueryUpdated'' ev w) @
           (if typeIdentifier ev = identifier
            then [(cb, map (deserializeSample R) (samples ev))] else []) \<and>
         invoked (listener R \<lparr>l_identifier = identifier, l_callback = cb\<rparr> ev v) =
           invoked v @
           (if typeIdentifier ev = identifier
            then [(cb, map (deserializeSample R) (samples ev))] else [])"
proof -
  from on_resolved [OF assms] obtain au w1 where
    au: "actualUnit N identifier unit w = (Inr au, w1)" and
    w': "w' = w1\<lparr>calls := calls w1 @ [Observe identifier au],
                 listeners := listeners w1 @
                   [Some (''onQueryUpdated'', \<lparr>l_identifier = identifier, l_callback = cb\<rparr>)]\<rparr>"
    by blast
  have "listeners w1 = listeners w" and i: "invoked w1 = invoked w"
    using au by (rule actualUnit_frame)+
  then have r: "registered w' =
      registered w @ [(''onQueryUpdated'', \<lparr>l_identifier = identifier, l_callback = cb\<rparr>)]"
    by (simp add: w' registered_def)
  have "invoked w' = invoked w"
    by (simp add: w' i)
  then show ?thesis
    by (simp add: invoked_emit invoked_listener r)
qed

theorem on_filters_events_witness:
  "invoked (emit reference_runtime ''onQueryUpdated'' example_event subscribed_world) =
     [(''cb'', [example_sample])] \<and>
   invoked (emit reference_runtime ''onQueryUpdated'' other_event subscribed_world) = []"
  using on_filters_events [OF on_example, of reference_runtime example_event example_world]
    on_filters_events [OF on_example, of reference_runtime other_event example_world]
  by (simp add: invoked_emit registered_def example_world_def example_event_def
      other_event_def deserialize_example)

subsection \<open>C7: normalizing a statistics response\<close>

text \<open>
  Claim C7. When the bridge answers \<^verbatim>\<open>getStatsBetween\<close> with a raw response, the
  result has the two strings of \<^verbatim>\<open>mostRecentQuantityDateInterval\<close> replaced by the
  dates parsed from them if the raw response has the field, has no such field if the raw
  response has none, and has every other field of the raw response unchanged.
\<close>

theorem getStatsBetween_normalizes:
  assumes "actualUnit N identifier unit w = (Inr au, w1)"
    and "toISOString fromDate = Inr f"
    and "toISOString (case to of Some d \<Rightarrow> d | None \<Rightarrow> Date (Some (Date_now R (ticks w)))) = Inr t"
    and "Native_getStatsBetween N (calls w1) identifier au f t options = Inr raw"
  shows "\<exists>response.
           fst (getStatsBetween R N identifier options fromDate to unit w) = Inr response \<and>
           stats.more response = stats.more raw \<and>
           (mostRecentQuantityDateInterval raw = None \<longrightarrow>
              mostRecentQuantityDateInterval response = None) \<and>
           (\<forall>i. mostRecentQuantityDateInterval raw = Some i \<longrightarrow>
              mostRecentQuantityDateInterval response =
                Some \<lparr>i_from = new_Date R (i_from i), i_to = new_Date R (i_to i)\<rparr>)"
  using getStatsBetween_resolved [OF assms] by simp

theorem getStatsBetween_normalizes_witness:
  "fst (getStatsBetween reference_runtime example_native ''stepCount'' [''cumulativeSum'']
          (Date (Some 1704067200000)) (Some (Date (Some 1704067500000))) (Some ''count'')
          example_world) =
     Inr \<lparr>mostRecentQuantityDateInterval =
            Some \<lparr>i_from = Date (Some 1704067200000), i_to = Date (Some 1704153600000)\<rparr>,
          averageQuantity = None, sumQuantity = Some 120, stats_unit = ''count''\<rparr> \<and>
   fst (getStatsBetween reference_runtime absent_native ''stepCount'' [''cumulativeSum'']
          (Date (Some 1704067200000)) (Some (Date (Some 1704067500000))) (Some ''count'')
          example_world) =
     Inr \<lparr>mostRecentQuantityDateInterval = None,
          averageQuantity = Some 4, sumQuantity = Some 120, stats_unit = ''count''\<rparr>"
proof -
  have au: "actualUnit N ''stepCount'' (Some ''count'') example_world =
      (Inr (Some ''count''), example_world)" for N :: "(quantity_fields, stats_fields) Native"
    by (simp add: actualUnit_def)
  have f: "toISOString (Date (Some 1704067200000)) = Inr ''2024-01-01T00:00:00.000Z''"
    by (simp add: toISOString_def iso_example_start)
  have t: "toISOString (case Some (Date (Some 1704067500000)) of Some d \<Rightarrow> d
             | None \<Rightarrow> Date (Some (Date_now reference_runtime (ticks example_world)))) =
           Inr ''2024-01-01T00:05:00.000Z''"
    by (simp add: toISOString_def iso_example_end)
  have r1: "Native_getStatsBetween example_native (calls example_world) ''stepCount''
      (Some ''count'') ''2024-01-01T00:00:00.000Z'' ''2024-01-01T00:05:00.000Z''
      [''cumulativeSum''] = Inr example_stats"
    by (simp add: example_native_def)
  have r2: "Native_getStatsBetween absent_native (calls example_world) ''stepCount''
      (Some ''count'') ''2024-01-01T00:00:00.000Z'' ''2024-01-01T00:05:00.000Z''
      [''cumulativeSum''] = Inr absent_stats"
    by (simp add: absent_native_def)
  from getStatsBetween_normalizes [OF au f t r1] obtain x where
    x: "fst (getStatsBetween reference_runtime example_native ''stepCount'' [''cumulativeSum'']
          (Date (Some 1704067200000)) (Some (Date (Some 1704067500000))) (Some ''count'')
          example_world) = Inr x"
      "stats.more x = stats.more example_stats"
      "mostRecentQuantityDateInterval x =
         Some \<lparr>i_from = Date (Some 1704067200000), i_to = Date (Some 1704153600000)\<rparr>"
    by (auto simp: example_stats_def new_Date_reference parse_example_start
        parse_example_next_day)
  from getStatsBetween_normalizes [OF au f t r2] obtain y where
    y: "fst (getStatsBetween reference_runtime absent_native ''stepCount'' [''cumulativeSum'']
          (Date (Some 1704067200000)) (Some (Date (Some 1704067500000))) (Some ''count'')
          example_world) = Inr y"
      "stats.more y = stats.more absent_stats"
      "mostRecentQuantityDateInterval y = None"
    by (auto simp: absent_stats_def)
  have "x = \<lparr>mostRecentQuantityDateInterval =
            Some \<lparr>i_from = Date (Some 1704067200000), i_to = Date (Some 1704153600000)\<rparr>,
          averageQuantity = None, sumQuantity = Some 120, stats_unit = ''count''\<rparr>"
    using x(2,3) by (cases x) (simp add: example_stats_def)
  moreover have "y = \<lparr>mostRecentQuantityDateInterval = None,
          averageQuantity = Some 4, sumQuantity = Some 120, stats_unit = ''count''\<rparr>"
    using y(2,3) by (cases y) (simp add: absent_stats_def)
  ultimately show ?thesis
    using x(1) y(1) by simp
qed

subsection \<open>C8: unsubscribing twice\<close>

text \<open>
  Claim C8. For a subscription created by \<^verbatim>\<open>on\<close>, calling the returned function and
  then calling it again: each of the two calls returns what the bridge answers to its own
  \<^verbatim>\<open>stopObserving\<close> request (no error of the library's own), each adds one
  \<^verbatim>\<open>stopObserving\<close> request with the subscription's query id, after each the
  registered listeners are those from before the subscription, neither invokes a callback,
  and an event after the second call delivers what it would have delivered before the
  subscription. In any world a call of the returned function clears the slot of the
  subscription, sends \<^verbatim>\<open>stopObserving\<close> with the query id and returns the bridge's
  answer: repeated calls are not deduplicated.
\<close>

theorem unsubscribe_twice:
  assumes "on N identifier cb unit w0 = (Inr u, w)"
    and "unsubscribe N u w = (r1, w1)"
    and "unsubscribe N u w1 = (r2, w2)"
  shows "r1 = Native_stopObserving N (calls w) (u_queryId u) \<and>
         r2 = Native_stopObserving N (calls w @ [StopObserving (u_queryId u)]) (u_queryId u) \<and>
         calls w1 = calls w @ [StopObserving (u_queryId u)] \<and>
         calls w2 = calls w @ [StopObserving (u_queryId u), StopObserving (u_queryId u)] \<and>
         registered w1 = registered w0 \<and> registered w2 = registered w0 \<and>
         invoked w1 = invoked w \<and> invoked w2 = invoked w \<and>
         invoked (emit R ''onQueryUpdated'' ev w2) = invoked (emit R ''onQueryUpdated'' ev w0) \<and>
         unsubscribe N u v =
           (Native_stopObserving N (calls v) (u_queryId u),
            v\<lparr>listeners := (listeners v)[u_subscription u := None],
              calls := calls v @ [StopObserving (u_queryId u)]\<rparr>)"
proof -
  from on_resolved [OF assms(1)] obtain au w' where
    au: "actualUnit N identifier unit w0 = (Inr au, w')" and
    k: "u_subscription u = length (listeners w0)" and
    w: "w = w'\<lparr>calls := calls w' @ [Observe identifier au],
                listeners := listeners w' @
                  [Some (''onQueryUpdated'', \<lparr>l_identifier = identifier, l_callback = cb\<rparr>)]\<rparr>"
    by blast
  have l: "listeners w' = listeners w0" and i: "invoked w' = invoked w0"
    using au by (rule actualUnit_frame)+
  have w1: "w1 = w\<lparr>listeners := (listeners w)[u_subscription u := None],
                    calls := calls w @ [StopObserving (u_queryId u)]\<rparr>"
    and r1: "r1 = Native_stopObserving N (calls w) (u_queryId u)"
    using assms(2) by (simp_all add: unsubscribe_eq)
  have w2: "w2 = w1\<lparr>listeners := (listeners w1)[u_subscription u := None],
                     calls := calls w1 @ [StopObserving (u_queryId u)]\<rparr>"
    and r2: "r2 = Native_stopObserving N (calls w1) (u_queryId u)"
    using assms(3) by (simp_all add: unsubscribe_eq)
  have l1: "listeners w1 = listeners w0 @ [None]"
    by (simp add: w1 w l k)
  have l2: "listeners w2 = listeners w0 @ [None]"
    by (simp add: w2 l1 k)
  have reg1: "registered w1 = registered w0" and reg2: "registered w2 = registered w0"
    using l1 l2 by (simp_all add: registered_def)
  have inv: "invoked w = invoked w0" "invoked w1 = invoked w" "invoked w2 = invoked w"
    by (simp_all add: w i w1 w2)
  have any: "unsubscribe N u v =
           (Native_stopObserving N (calls v) (u_queryId u),
            v\<lparr>listeners := (listeners v)[u_subscription u := None],
              calls := calls v @ [StopObserving (u_queryId u)]\<rparr>)"
    by (rule unsubscribe_eq)
  have "invoked (emit R ''onQueryUpdated'' ev w2) = invoked (emit R ''onQueryUpdated'' ev w0)"
    using reg2 inv by (simp add: invoked_emit)
  moreover have "calls w1 = calls w @ [StopObserving (u_queryId u)]"
    by (simp add: w1)
  moreover have "calls w2 = calls w @ [StopObserving (u_queryId u), StopObserving (u_queryId u)]"
    by (simp add: w2 w1)
  moreover have "r2 = Native_stopObserving N (calls w @ [StopObserving (u_queryId u)]) (u_queryId u)"
    by (simp add: r2 w1)
  ultimately show ?thesis
    using r1 reg1 reg2 inv any by blast
qed

lemma unsubscribe_example_1:
  "unsubscribe example_native example_unsubscribe subscribed_world =
     (Inr True, subscribed_world\<lparr>listeners := [None],
        calls := [Observe ''stepCount'' (Some ''count''), StopObserving ''query-1'']\<rparr>)"
  by (simp add: unsubscribe_eq example_native_def example_unsubscribe_def subscribed_world_def)

lemma unsubscribe_example_2:
  "unsubscribe example_native example_unsubscribe
     (subscribed_world\<lparr>listeners := [None],
        calls := [Observe ''stepCount'' (Some ''count''), StopObserving ''query-1'']\<rparr>) =
     (Inr False, subscribed_world\<lparr>listeners := [None],
        calls := [Observe ''stepCount'' (Some ''count''), StopObserving ''query-1'',
                  StopObserving ''query-1'']\<rparr>)"
  by (simp add: unsubscribe_eq example_native_def example_unsubscribe_def subscribed_world_def)

theorem unsubscribe_twice_witness:
  "fst (unsubscribe example_native example_unsubscribe subscribed_world) = Inr True \<and>
   fst (unsubscribe example_native example_unsubscribe
          (snd (unsubscribe example_native example_unsubscribe subscribed_world))) = Inr False \<and>
   calls (snd (unsubscribe example_native example_unsubscribe
          (snd (unsubscribe example_native example_unsubscribe subscribed_world)))) =
     [Observe ''stepCount'' (Some ''count''), StopObserving ''query-1'', StopObserving ''query-1''] \<and>
   invoked (emit reference_runtime ''onQueryUpdated'' example_event
     (snd (unsubscribe example_native example_unsubscribe
          (snd (unsubscribe example_native example_unsubscribe subscribed_world))))) = []"
  using unsubscribe_twice [OF on_example unsubscribe_example_1 unsubscribe_example_2,
      of reference_runtime example_event example_world]
  by (simp add: unsubscribe_eq invoked_emit registered_def example_world_def
      example_native_def example_unsubscribe_def subscribed_world_def)

subsection \<open>C9: the defaults of save\<close>

text \<open>
  Claim C9, as amended. In \<^verbatim>\<open>save\<close>, a start date that is omitted defaults to the
  end date and an end date that is omitted defaults to the start date. With exactly one of
  them given and valid (it has an ISO string), the bridge receives the ISO string of that
  date as both start and end; with exactly one of them given and invalid, \<^verbatim>\<open>save\<close>
  throws the RangeError of \<^verbatim>\<open>toISOString\<close> and the bridge is not called. With both
  omitted (or no options at all) each is a reading of the clock, the start read first.
  Metadata that is omitted is sent as the empty object, as is any other falsy metadata;
  with both dates given and valid each is sent as its own ISO string.
\<close>

theorem save_defaults:
  "(toISOString d = Inr s \<longrightarrow>
      save R N identifier unit val
        (Some \<lparr>opt_start = None, opt_end = Some d, opt_metadata = md\<rparr>) w =
        (Native_save N (calls w) identifier unit val s s (if truthy md then md else JObject []),
         log_call (Save identifier unit val s s (if truthy md then md else JObject [])) w) \<and>
      save R N identifier unit val
        (Some \<lparr>opt_start = Some d, opt_end = None, opt_metadata = md\<rparr>) w =
        (Native_save N (calls w) identifier unit val s s (if truthy md then md else JObject []),
         log_call (Save identifier unit val s s (if truthy md then md else JObject [])) w)) \<and>
   save R N identifier unit val None w =
     (Native_save N (calls w) identifier unit val
        (iso_string (Date_now R (ticks w))) (iso_string (Date_now R (Suc (ticks w))))
        (JObject []),
      log_call (Save identifier unit val
        (iso_string (Date_now R (ticks w))) (iso_string (Date_now R (Suc (ticks w))))
        (JObject [])) (w\<lparr>ticks := Suc (Suc (ticks w))\<rparr>)) \<and>
   save R N identifier unit val
     (Some \<lparr>opt_start = None, opt_end = None, opt_metadata = md\<rparr>) w =
     (Native_save N (calls w) identifier unit val
        (iso_string (Date_now R (ticks w))) (iso_string (Date_now R (Suc (ticks w))))
        (if truthy md then md else JObject []),
      log_call (Save identifier unit val
        (iso_string (Date_now R (ticks w))) (iso_string (Date_now R (Suc (ticks w))))
        (if truthy md then md else JObject [])) (w\<lparr>ticks := Suc (Suc (ticks w))\<rparr>)) \<and>
   (toISOString d = Inr s \<and> toISOString d' = Inr s' \<longrightarrow>
      save R N identifier unit val
        (Some \<lparr>opt_start = Some d, opt_end = Some d', opt_metadata = JUndefined\<rparr>) w =
        (Native_save N (calls w) identifier unit val s s' (JObject []),
         log_call (Save identifier unit val s s' (JObject [])) w)) \<and>
   (toISOString d = Inl e \<longrightarrow>
      save R N identifier unit val
        (Some \<lparr>opt_start = None, opt_end = Some d, opt_metadata = md\<rparr>) w = (Inl e, w) \<and>
      save R N identifier unit val
        (Some \<lparr>opt_start = Some d, opt_end = None, opt_metadata = md\<rparr>) w = (Inl e, w))"
proof -
  have 1: "save R N identifier unit val
        (Some \<lparr>opt_start = st, opt_end = en, opt_metadata = md\<rparr>) w =
        (Native_save N (calls w) identifier unit val s s (if truthy md then md else JObject []),
         log_call (Save identifier unit val s s (if truthy md then md else JObject [])) w)"
    if "toISOString d = Inr s" "(st = None \<and> en = Some d) \<or> (st = Some d \<and> en = None)"
    for st en
    using that by (rule save_one_date)
  have 2: "save R N identifier unit val
        (Some \<lparr>opt_start = Some d, opt_end = Some d', opt_metadata = JUndefined\<rparr>) w =
        (Native_save N (calls w) identifier unit val s s' (JObject []),
         log_call (Save identifier unit val s s' (JObject [])) w)"
    if "toISOString d = Inr s" "toISOString d' = Inr s'"
    using that by (simp add: save_def Let_def)
  have 3: "save R N identifier unit val
        (Some \<lparr>opt_start = None, opt_end = Some d, opt_metadata = md\<rparr>) w = (Inl e, w)"
    and 4: "save R N identifier unit val
        (Some \<lparr>opt_start = Some d, opt_end = None, opt_metadata = md\<rparr>) w = (Inl e, w)"
    if "toISOString d = Inl e"
    using that by (simp_all add: save_def Let_def)
  show ?thesis
    using 1 2 3 4 by (simp add: save_no_options save_no_dates)
qed

text \<open>
  The claim as first stated fails on an invalid date: given as the only date, it is chosen
  for both start and end, \<^verbatim>\<open>toISOString\<close> throws, and the bridge receives no request.
\<close>

theorem save_defaults_counterexample:
  "save reference_runtime example_native ''stepCount'' ''count'' 120
     (Some \<lparr>opt_start = None, opt_end = Some (Date None), opt_metadata = JUndefined\<rparr>)
     example_world = (Inl RangeError, example_world) \<and>
   calls (snd (save reference_runtime example_native ''stepCount'' ''count'' 120
     (Some \<lparr>opt_start = None, opt_end = Some (Date None), opt_metadata = JUndefined\<rparr>)
     example_world)) = []"
  by (simp add: save_def Let_def toISOString_def example_world_def)

theorem save_defaults_witness:
  "save reference_runtime example_native ''stepCount'' ''count'' 120
     (Some \<lparr>opt_start = None, opt_end = Some (Date (Some 1704067500000)),
            opt_metadata = JUndefined\<rparr>) example_world =
     (Inr True,
      log_call (Save ''stepCount'' ''count'' 120 ''2024-01-01T00:05:00.000Z''
        ''2024-01-01T00:05:00.000Z'' (JObject [])) example_world) \<and>
   save reference_runtime example_native ''stepCount'' ''count'' 120 None example_world =
     (Inr True,
      log_call (Save ''stepCount'' ''count'' 120 ''2024-01-01T00:00:00.000Z''
        ''2024-01-01T00:00:00.001Z'' (JObject [])) (example_world\<lparr>ticks := Suc (Suc 0)\<rparr>)) \<and>
   save reference_runtime example_native ''stepCount'' ''count'' 120
     (Some \<lparr>opt_start = Some (Date (Some 1704067200000)),
            opt_end = Some (Date (Some 1704067500000)),
            opt_metadata = JUndefined\<rparr>) example_world =
     (Inr True,
      log_call (Save ''stepCount'' ''count'' 120 ''2024-01-01T00:00:00.000Z''
        ''2024-01-01T00:05:00.000Z'' (JObject [])) example_world) \<and>
   save reference_runtime example_native ''stepCount'' ''count'' 120
     (Some \<lparr>opt_start = Some (Date None), opt_end = None, opt_metadata = JUndefined\<rparr>)
     example_world = (Inl RangeError, example_world)"
proof -
  have s: "toISOString (Date (Some 1704067200000)) = Inr ''2024-01-01T00:00:00.000Z''"
    and e: "toISOString (Date (Some 1704067500000)) = Inr ''2024-01-01T00:05:00.000Z''"
    by (simp_all add: toISOString_def iso_example_start iso_example_end)
  have tk: "ticks example_world = 0"
    by (simp add: example_world_def)
  have now0: "iso_string (Date_now reference_runtime 0) = ''2024-01-01T00:00:00.000Z''"
    and now1: "iso_string (Date_now reference_runtime (Suc 0)) = ''2024-01-01T00:00:00.001Z''"
    by (simp_all add: reference_runtime_def iso_example_start iso_example_tick)
  have ok: "Native_save example_native h i u v a b m = Inr True" for h i u v a b m
    by (simp add: example_native_def)
  have inv: "toISOString (Date None) = Inl RangeError"
    by (simp add: toISOString_def)
  note t = save_defaults [of "Date (Some 1704067500000)" "''2024-01-01T00:05:00.000Z''"
      reference_runtime example_native "''stepCount''" "''count''" 120 JUndefined
      example_world "Date (Some 1704067500000)" "''2024-01-01T00:05:00.000Z''" RangeError]
  note t' = save_defaults [of "Date (Some 1704067200000)" "''2024-01-01T00:00:00.000Z''"
      reference_runtime example_native "''stepCount''" "''count''" 120 JUndefined
      example_world "Date (Some 1704067500000)" "''2024-01-01T00:05:00.000Z''" RangeError]
  note t'' = save_defaults [of "Date None" "''2024-01-01T00:00:00.000Z''"
      reference_runtime example_native "''stepCount''" "''count''" 120 JUndefined
      example_world "Date (Some 1704067500000)" "''2024-01-01T00:05:00.000Z''" RangeError]
  have 1: "save reference_runtime example_native ''stepCount'' ''count'' 120
     (Some \<lparr>opt_start = None, opt_end = Some (Date (Some 1704067500000)),
            opt_metadata = JUndefined\<rparr>) example_world =
     (Inr True,
      log_call (Save ''stepCount'' ''count'' 120 ''2024-01-01T00:05:00.000Z''
        ''2024-01-01T00:05:00.000Z'' (JObject [])) example_world)"
    using t e by (simp add: ok)
  have 2: "save reference_runtime example_native ''stepCount'' ''count'' 120 None example_world =
     (Inr True,
      log_call (Save ''stepCount'' ''count'' 120 ''2024-01-01T00:00:00.000Z''
        ''2024-01-01T00:00:00.001Z'' (JObject [])) (example_world\<lparr>ticks := Suc (Suc 0)\<rparr>))"
    using t by (simp add: ok tk now0 now1)
  have 3: "save reference_runtime example_native ''stepCount'' ''count'' 120
     (Some \<lparr>opt_start = Some (Date (Some 1704067200000)),
            opt_end = Some (Date (Some 1704067500000)),
            opt_metadata = JUndefined\<rparr>) example_world =
     (Inr True,
      log_call (Save ''stepCount'' ''count'' 120 ''2024-01-01T00:00:00.000Z''
        ''2024-01-01T00:05:00.000Z'' (JObject [])) example_world)"
    using t' s e by (simp add: ok)
  have 4: "save reference_runtime example_native ''stepCount'' ''count'' 120
     (Some \<lparr>opt_start = Some (Date None), opt_end = None, opt_metadata = JUndefined\<rparr>)
     example_world = (Inl RangeError, example_world)"
    using t'' inv by blast
  show ?thesis
    using 1 2 3 4 by blast
qed

subsection \<open>C10: the last sample\<close>

text \<open>
  Claim C10. \<^verbatim>\<open>getLastSamples\<close> with its limit omitted is \<^verbatim>\<open>getLastSamples\<close> with
  limit 1. \<^verbatim>\<open>getLastSample\<close> calls \<^verbatim>\<open>getLastSamples\<close> with limit 1 and returns the
  first element of the list it resolves with: when the bridge answers with the empty list
  the result is \<^verbatim>\<open>undefined\<close> (\<open>None\<close>) and not an error, and when it answers with a
  nonempty list the result is its first sample, deserialized.
\<close>

theorem getLastSample_first:
  "getLastSamples R N identifier None unit w = getLastSamples R N identifier (Some 1) unit w \<and>
   getLastSample R N identifier unit w =
     (case getLastSamples R N identifier (Some 1) unit w of
        (Inl e, w') \<Rightarrow> (Inl e, w')
      | (Inr xs, w') \<Rightarrow> (Inr (case xs of [] \<Rightarrow> None | x # _ \<Rightarrow> Some x), w')) \<and>
   (actualUnit N identifier unit w = (Inr au, w1) \<longrightarrow>
      (Native_getLastSamples N (calls w1) identifier 1 au = Inr [] \<longrightarrow>
         getLastSample R N identifier unit w =
           (Inr None, log_call (GetLastSamples identifier 1 au) w1)) \<and>
      (Native_getLastSamples N (calls w1) identifier 1 au = Inr (r # rs) \<longrightarrow>
         getLastSample R N identifier unit w =
           (Inr (Some (deserializeSample R r)), log_call (GetLastSamples identifier 1 au) w1)))"
  by (simp add: getLastSample_def getLastSamples_def Let_def)

theorem getLastSample_first_witness:
  "getLastSample reference_runtime empty_native ''stepCount'' (Some ''count'') example_world =
     (Inr None, log_call (GetLastSamples ''stepCount'' 1 (Some ''count'')) example_world) \<and>
   getLastSample reference_runtime example_native ''stepCount'' (Some ''count'') example_world =
     (Inr (Some example_sample),
      log_call (GetLastSamples ''stepCount'' 1 (Some ''count'')) example_world)"
proof -
  have au: "actualUnit N ''stepCount'' (Some ''count'') example_world =
      (Inr (Some ''count''), example_world)" for N :: "(quantity_fields, stats_fields) Native"
    by (simp add: actualUnit_def)
  have e: "Native_getLastSamples empty_native (calls example_world) ''stepCount'' 1
      (Some ''count'') = Inr []"
    by (simp add: empty_native_def)
  have x: "Native_getLastSamples example_native (calls example_world) ''stepCount'' 1
      (Some ''count'') = Inr [example_raw]"
    by (simp add: example_native_def)
  have 1: "getLastSample reference_runtime empty_native ''stepCount'' (Some ''count'')
      example_world =
     (Inr None, log_call (GetLastSamples ''stepCount'' 1 (Some ''count'')) example_world)"
    using getLastSample_first [of reference_runtime empty_native "''stepCount''"
        "Some ''count''" example_world "Some ''count''" example_world example_raw "[]"] au e
    by blast
  have "getLastSample reference_runtime example_native ''stepCount'' (Some ''count'')
      example_world =
     (Inr (Some (deserializeSample reference_runtime example_raw)),
      log_call (GetLastSamples ''stepCount'' 1 (Some ''count'')) example_world)"
    using getLastSample_first [of reference_runtime example_native "''stepCount''"
        "Some ''count''" example_world "Some ''count''" example_world example_raw "[]"] au x
    by blast
  then show ?thesis
    using 1 by (simp add: deserialize_example)
qed

end
